theory Spec2Isabelle
  imports Main "HOL-Library.Sublist"
begin

section \<open>Terminal environment, working directory and shell paths\<close>

text \<open>
  A shallow embedding of \<^verbatim>\<open>src/vs/workbench/contrib/terminal/common/terminalEnvironment.ts\<close>.

  Modelling decisions:
  \<^item> A JavaScript string is a \<open>string\<close>; a character is one code unit. Case conversion is
    modelled on the ASCII letters, every other character is its own upper and lower case.
  \<^item> An environment (\<open>IProcessEnvironment\<close>, \<open>ITerminalEnvironment\<close>) is the list of its
    own enumerable entries in enumeration order; the keys of a well-formed object are distinct.
    Its keys are taken to be names of variables: outside the model are the key \<open>__proto__\<close>
    (which cannot be assigned a string) and keys that are array indices (which are enumerated
    before all other keys).
  \<^item> A value of such an entry is a string, \<open>null\<close> or \<open>undefined\<close>.
  \<^item> In-place mutation is explicit state passing: a function that mutates its first argument
    returns the mutated object.
  \<^item> A promise is its settled outcome: \<open>Some\<close> result, or \<open>None\<close> when it rejects.
  \<^item> The platform globals \<open>isWindows\<close> and \<open>language\<close> are parameters.
\<close>

subsection \<open>Strings\<close>

definition toLowerChar :: "char \<Rightarrow> char" where
  "toLowerChar c =
     (case map_of (zip ''ABCDEFGHIJKLMNOPQRSTUVWXYZ'' ''abcdefghijklmnopqrstuvwxyz'') c of
        Some d \<Rightarrow> d | None \<Rightarrow> c)"

definition toUpperChar :: "char \<Rightarrow> char" where
  "toUpperChar c =
     (case map_of (zip ''abcdefghijklmnopqrstuvwxyz'' ''ABCDEFGHIJKLMNOPQRSTUVWXYZ'') c of
        Some d \<Rightarrow> d | None \<Rightarrow> c)"

definition toLowerCase :: "string \<Rightarrow> string" where
  "toLowerCase s = map toLowerChar s"

definition toUpperCase :: "string \<Rightarrow> string" where
  "toUpperCase s = map toUpperChar s"

text \<open>\<open>s.split(sep)\<close> for a one-character separator; the result is never empty.\<close>

fun split_at :: "string \<Rightarrow> char \<Rightarrow> string list" where
  "split_at [] sep = [[]]"
| "split_at (c # cs) sep =
     (if c = sep then [] # split_at cs sep
      else (case split_at cs sep of p # ps \<Rightarrow> (c # p) # ps | [] \<Rightarrow> [[c]]))"

text \<open>\<open>parts.join(sep)\<close>.\<close>

fun join :: "string list \<Rightarrow> string \<Rightarrow> string" where
  "join [] sep = []"
| "join [p] sep = p"
| "join (p # q # ps) sep = p @ sep @ join (q # ps) sep"

text \<open>\<open>s.includes(sub)\<close>: \<open>sub\<close> occurs at some position of \<open>s\<close>.\<close>

fun includes_str :: "string \<Rightarrow> string \<Rightarrow> bool" where
  "includes_str [] sub = (sub = [])"
| "includes_str (c # cs) sub = (prefix sub (c # cs) \<or> includes_str cs sub)"

text \<open>\<open>s.replace(/c/g, r)\<close> for a one-character pattern.\<close>

definition replaceAll :: "string \<Rightarrow> char \<Rightarrow> string \<Rightarrow> string" where
  "replaceAll s c r = concat (map (\<lambda>d. if d = c then r else [d]) s)"

subsection \<open>Objects as dictionaries\<close>

datatype envValue = Str string | Null | Undefined

type_synonym ITerminalEnvironment = "(string \<times> envValue) list"
type_synonym IProcessEnvironment = "(string \<times> envValue) list"

text \<open>\<open>typeof value === 'string'\<close>.\<close>

fun isString :: "envValue \<Rightarrow> bool" where
  "isString (Str s) = True"
| "isString Null = False"
| "isString Undefined = False"

text \<open>\<open>Object.keys(obj)\<close>, also the order of \<open>for (const key in obj)\<close>.\<close>

definition keys :: "(string \<times> envValue) list \<Rightarrow> string list" where
  "keys obj = map fst obj"

text \<open>\<open>obj[key]\<close>: the value of the entry, \<open>undefined\<close> when there is none.\<close>

definition getProp :: "(string \<times> envValue) list \<Rightarrow> string \<Rightarrow> envValue" where
  "getProp obj key = (case map_of obj key of Some v \<Rightarrow> v | None \<Rightarrow> Undefined)"

text \<open>\<open>obj[key] = value\<close>: an existing entry keeps its place, a new one goes last.\<close>

fun setProp :: "(string \<times> envValue) list \<Rightarrow> string \<Rightarrow> envValue \<Rightarrow> (string \<times> envValue) list" where
  "setProp [] key value = [(key, value)]"
| "setProp ((k, v) # rest) key value =
     (if k = key then (k, value) # rest else (k, v) # setProp rest key value)"

text \<open>\<open>delete obj[key]\<close>.\<close>

definition deleteProp :: "(string \<times> envValue) list \<Rightarrow> string \<Rightarrow> (string \<times> envValue) list" where
  "deleteProp obj key = filter (\<lambda>(k, v). k \<noteq> key) obj"

subsection \<open>Merging environments\<close>

text \<open>\<open>_mergeEnvironmentValue\<close>: a string is assigned, anything else (\<open>null\<close>) deletes the key.\<close>

definition mergeEnvironmentValue :: "ITerminalEnvironment \<Rightarrow> string \<Rightarrow> envValue \<Rightarrow> ITerminalEnvironment" where
  "mergeEnvironmentValue env key value =
     (if isString value then setProp env key value else deleteProp env key)"

text \<open>
  The inner loop of the Windows branch: \<open>actualKey\<close> starts as \<open>configKey\<close> and becomes the
  first key of \<open>parent\<close> that equals it ignoring case.
\<close>

fun actualKey :: "string \<Rightarrow> string list \<Rightarrow> string" where
  "actualKey configKey [] = configKey"
| "actualKey configKey (envKey # envKeys) =
     (if toLowerCase configKey = toLowerCase envKey then envKey
      else actualKey configKey envKeys)"

fun mergeEnvironments_windows :: "IProcessEnvironment \<Rightarrow> ITerminalEnvironment \<Rightarrow> IProcessEnvironment" where
  "mergeEnvironments_windows parent [] = parent"
| "mergeEnvironments_windows parent ((configKey, value) # other) =
     (let key = actualKey configKey (keys parent)
      in mergeEnvironments_windows
           (if value \<noteq> Undefined then mergeEnvironmentValue parent key value else parent) other)"

fun mergeEnvironments_other :: "IProcessEnvironment \<Rightarrow> ITerminalEnvironment \<Rightarrow> IProcessEnvironment" where
  "mergeEnvironments_other parent [] = parent"
| "mergeEnvironments_other parent ((key, value) # other) =
     mergeEnvironments_other
       (if value \<noteq> Undefined then mergeEnvironmentValue parent key value else parent) other"

definition mergeEnvironments :: "bool \<Rightarrow> IProcessEnvironment \<Rightarrow> ITerminalEnvironment option \<Rightarrow> IProcessEnvironment" where
  "mergeEnvironments isWindows parent other =
     (case other of
        None \<Rightarrow> parent
      | Some entries \<Rightarrow>
          if isWindows then mergeEnvironments_windows parent entries
          else mergeEnvironments_other parent entries)"

fun mergeNonNullKeys_loop :: "IProcessEnvironment \<Rightarrow> ITerminalEnvironment \<Rightarrow> IProcessEnvironment" where
  "mergeNonNullKeys_loop env [] = env"
| "mergeNonNullKeys_loop env ((key, value) # other) =
     mergeNonNullKeys_loop
       (if value \<noteq> Undefined \<and> value \<noteq> Null then setProp env key value else env) other"

definition mergeNonNullKeys :: "IProcessEnvironment \<Rightarrow> ITerminalEnvironment option \<Rightarrow> IProcessEnvironment" where
  "mergeNonNullKeys env other =
     (case other of None \<Rightarrow> env | Some entries \<Rightarrow> mergeNonNullKeys_loop env entries)"

subsection \<open>Variable resolution\<close>

text \<open>A \<open>VariableResolver\<close>: the resolved string, or \<open>None\<close> when the promise rejects.\<close>

type_synonym VariableResolver = "string \<Rightarrow> string option"

text \<open>
  \<open>resolveConfigurationVariables\<close>: every string entry is overwritten under its own key by
  the resolver's result, or by itself when the resolver rejects.
\<close>

definition resolveConfigurationVariables :: "VariableResolver \<Rightarrow> ITerminalEnvironment \<Rightarrow> ITerminalEnvironment" where
  "resolveConfigurationVariables variableResolver env =
     map (\<lambda>(key, value).
            (case value of
               Str s \<Rightarrow> (key, Str (case variableResolver s of Some r \<Rightarrow> r | None \<Rightarrow> s))
             | _ \<Rightarrow> (key, value))) env"

subsection \<open>The locale variable\<close>

datatype detectLocale = Auto | Off | On

text \<open>A regular expression's \<open>.\<close> matches every character but a line terminator.\<close>

definition lineTerminator :: "char \<Rightarrow> bool" where
  "lineTerminator c = (c = CHR 0x0A \<or> c = CHR 0x0D)"

text \<open>
  \<open>s.search(/lit$/) !== -1\<close> for a literal \<open>lit\<close>: some position of \<open>s\<close> is followed by
  \<open>lit\<close> and then the end of the input.
\<close>

fun searchAtEnd :: "string \<Rightarrow> string \<Rightarrow> bool" where
  "searchAtEnd lit [] = (lit = [])"
| "searchAtEnd lit (c # cs) = (c # cs = lit \<or> searchAtEnd lit cs)"

text \<open>
  \<open>s.search(/lit.+/) !== -1\<close> for a literal \<open>lit\<close>: some position of \<open>s\<close> is followed by
  \<open>lit\<close> and then at least one character that \<open>.\<close> matches.
\<close>

fun searchThenAny :: "string \<Rightarrow> string \<Rightarrow> bool" where
  "searchThenAny lit [] = False"
| "searchThenAny lit (c # cs) =
     ((prefix lit (c # cs) \<and>
        (case drop (length lit) (c # cs) of [] \<Rightarrow> False | d # ds \<Rightarrow> \<not> lineTerminator d))
      \<or> searchThenAny lit cs)"

text \<open>\<open>!lang\<close> for \<open>lang = env['LANG']\<close>.\<close>

fun falsy :: "envValue \<Rightarrow> bool" where
  "falsy (Str s) = (s = [])"
| "falsy Null = True"
| "falsy Undefined = True"

fun stringOf :: "envValue \<Rightarrow> string" where
  "stringOf (Str s) = s"
| "stringOf Null = []"
| "stringOf Undefined = []"

definition shouldSetLangEnvVariable :: "IProcessEnvironment \<Rightarrow> detectLocale \<Rightarrow> bool" where
  "shouldSetLangEnvVariable env mode =
     (if mode = On then True
      else if mode = Auto then
        (let lang = getProp env ''LANG''
         in falsy lang \<or>
            (\<not> searchAtEnd ''.UTF-8'' (stringOf lang) \<and>
             \<not> searchAtEnd ''.utf8'' (stringOf lang) \<and>
             \<not> searchThenAny ''.euc'' (stringOf lang)))
      else False)"

definition languageVariants :: "(string \<times> string) list" where
  "languageVariants =
     [(''af'', ''ZA''), (''am'', ''ET''), (''be'', ''BY''), (''bg'', ''BG''), (''ca'', ''ES''),
      (''cs'', ''CZ''), (''da'', ''DK''), (''de'', ''DE''), (''el'', ''GR''), (''en'', ''US''),
      (''es'', ''ES''), (''et'', ''EE''), (''eu'', ''ES''), (''fi'', ''FI''), (''fr'', ''FR''),
      (''he'', ''IL''), (''hr'', ''HR''), (''hu'', ''HU''), (''hy'', ''AM''), (''is'', ''IS''),
      (''it'', ''IT''), (''ja'', ''JP''), (''kk'', ''KZ''), (''ko'', ''KR''), (''lt'', ''LT''),
      (''nl'', ''NL''), (''no'', ''NO''), (''pl'', ''PL''), (''pt'', ''BR''), (''ro'', ''RO''),
      (''ru'', ''RU''), (''sk'', ''SK''), (''sl'', ''SI''), (''sr'', ''YU''), (''sv'', ''SE''),
      (''tr'', ''TR''), (''uk'', ''UA''), (''zh'', ''CN'')]"

text \<open>
  The table is an object literal, and \<open>parts[0] in languageVariants\<close> is true for its own
  keys and also for the names that every such object inherits from \<open>Object.prototype\<close>.
  Each inherited name is listed here with the string that \<open>parts.join\<close> makes of the
  inherited value, as V8, the engine of the host, prints it.
\<close>

definition objectPrototype :: "(string \<times> string) list" where
  "objectPrototype =
     [(''constructor'', ''function Object() { [native code] }''),
      (''__defineGetter__'', ''function __defineGetter__() { [native code] }''),
      (''__defineSetter__'', ''function __defineSetter__() { [native code] }''),
      (''hasOwnProperty'', ''function hasOwnProperty() { [native code] }''),
      (''__lookupGetter__'', ''function __lookupGetter__() { [native code] }''),
      (''__lookupSetter__'', ''function __lookupSetter__() { [native code] }''),
      (''isPrototypeOf'', ''function isPrototypeOf() { [native code] }''),
      (''propertyIsEnumerable'', ''function propertyIsEnumerable() { [native code] }''),
      (''toString'', ''function toString() { [native code] }''),
      (''valueOf'', ''function valueOf() { [native code] }''),
      (''__proto__'', ''[object Object]''),
      (''toLocaleString'', ''function toLocaleString() { [native code] }'')]"

text \<open>\<open>key in languageVariants\<close>.\<close>

definition inLanguageVariants :: "string \<Rightarrow> bool" where
  "inLanguageVariants key =
     (key \<in> set (map fst languageVariants) \<or> key \<in> set (map fst objectPrototype))"

text \<open>
  \<open>languageVariants[key]\<close> as \<open>parts.join\<close> prints it: the own entry, else the inherited
  value, else \<open>undefined\<close>, which \<open>join\<close> prints as the empty string.
\<close>

definition languageVariantOf :: "string \<Rightarrow> string" where
  "languageVariantOf key =
     (case map_of languageVariants key of
        Some variant \<Rightarrow> variant
      | None \<Rightarrow> (case map_of objectPrototype key of Some printed \<Rightarrow> printed | None \<Rightarrow> []))"

definition getLangEnvVariable :: "string option \<Rightarrow> string" where
  "getLangEnvVariable locale =
     (let parts = (case locale of
                     None \<Rightarrow> []
                   | Some l \<Rightarrow> if l \<noteq> [] then split_at l CHR ''-'' else []);
          n = length parts
      in if n = 0 then ''en_US.UTF-8''
         else if n = 1 then
           (if inLanguageVariants (parts ! 0)
            then join (parts @ [languageVariantOf (parts ! 0)]) ''_'' @ ''.UTF-8''
            else join parts ''_'' @ ''.UTF-8'')
         else join (parts[1 := toUpperCase (parts ! 1)]) ''_'' @ ''.UTF-8'')"

text \<open>\<open>if (version)\<close>: a version that is given and not empty.\<close>

fun truthy :: "string option \<Rightarrow> bool" where
  "truthy None = False"
| "truthy (Some s) = (s \<noteq> [])"

definition addTerminalEnvironmentKeys ::
  "IProcessEnvironment \<Rightarrow> string option \<Rightarrow> string option \<Rightarrow> detectLocale \<Rightarrow> IProcessEnvironment" where
  "addTerminalEnvironmentKeys env version locale mode =
     (let env1 = setProp env ''TERM_PROGRAM'' (Str ''vscode'');
          env2 = (if truthy version then setProp env1 ''TERM_PROGRAM_VERSION'' (Str (the version))
                  else env1);
          env3 = (if shouldSetLangEnvVariable env2 mode
                  then setProp env2 ''LANG'' (Str (getLangEnvVariable locale)) else env2)
      in setProp env3 ''COLORTERM'' (Str ''truecolor''))"

subsection \<open>Building the environment\<close>

text \<open>
  Modelled from the spec: \<open>sanitizeProcessEnvironment\<close> lives in
  \<^verbatim>\<open>vs/base/common/processes\<close>, which is not part of the sources at hand. The
  specification describes it as \<open>sanitizeProcessEnvironment(env, ...markerKeysToStrip)\<close>:
  "removes named keys in place".
\<close>

fun sanitizeProcessEnvironment :: "IProcessEnvironment \<Rightarrow> string list \<Rightarrow> IProcessEnvironment" where
  "sanitizeProcessEnvironment env [] = env"
| "sanitizeProcessEnvironment env (key # more) = sanitizeProcessEnvironment (deleteProp env key) more"

text \<open>\<open>shell.cwd\<close> is a string or a URI, of which only \<open>fsPath\<close> is read.\<close>

datatype cwdValue = CwdString string | CwdUri string

record IShellLaunchConfig =
  slc_executable :: "string option"
  slc_cwd :: "cwdValue option"
  slc_env :: "ITerminalEnvironment option"
  slc_strictEnv :: bool
  slc_ignoreConfigurationCwd :: bool

text \<open>
  \<open>createTerminalEnvironment\<close> returns the environment it has built. That it also resolves
  the variables of \<open>shellLaunchConfig.env\<close> in place, in the caller's object, is not part of
  the returned value.
\<close>

definition createTerminalEnvironment ::
  "bool \<Rightarrow> string \<Rightarrow> IShellLaunchConfig \<Rightarrow> ITerminalEnvironment option \<Rightarrow> VariableResolver option
     \<Rightarrow> string option \<Rightarrow> detectLocale \<Rightarrow> IProcessEnvironment \<Rightarrow> IProcessEnvironment" where
  "createTerminalEnvironment isWindows language shellLaunchConfig envFromConfig variableResolver
       version mode baseEnv =
     (if slc_strictEnv shellLaunchConfig then mergeNonNullKeys [] (slc_env shellLaunchConfig)
      else
        (let env0 = mergeNonNullKeys [] (Some baseEnv);
             allowedEnvFromConfig = (case envFromConfig of None \<Rightarrow> [] | Some c \<Rightarrow> c);
             resolvedEnvFromConfig =
               (case variableResolver of
                  None \<Rightarrow> allowedEnvFromConfig
                | Some r \<Rightarrow> resolveConfigurationVariables r allowedEnvFromConfig);
             launchEnv =
               (case variableResolver of
                  None \<Rightarrow> slc_env shellLaunchConfig
                | Some r \<Rightarrow> map_option (resolveConfigurationVariables r) (slc_env shellLaunchConfig));
             env1 = sanitizeProcessEnvironment env0 [''VSCODE_IPC_HOOK_CLI'', ''VSCODE_PROXY_URI''];
             env2 = mergeEnvironments isWindows env1 (Some resolvedEnvFromConfig);
             env3 = mergeEnvironments isWindows env2 launchEnv
         in addTerminalEnvironmentKeys env3 version (Some language) mode))"

subsection \<open>The working directory\<close>

text \<open>
  \<open>_resolveCwd\<close>: without a resolver the string itself; with one, its result, or
  \<open>undefined\<close> when it rejects. The error message written to the log service is not part of
  the result and is left out.
\<close>

definition resolveCwd :: "string \<Rightarrow> VariableResolver option \<Rightarrow> string option" where
  "resolveCwd cwd variableResolver =
     (case variableResolver of
        Some r \<Rightarrow> (case r cwd of Some resolved \<Rightarrow> Some resolved | None \<Rightarrow> None)
      | None \<Rightarrow> Some cwd)"

text \<open>\<open>if (shell.cwd)\<close>: an object is truthy, a string is truthy unless empty.\<close>

fun truthyCwd :: "cwdValue option \<Rightarrow> bool" where
  "truthyCwd None = False"
| "truthyCwd (Some (CwdString s)) = (s \<noteq> [])"
| "truthyCwd (Some (CwdUri p)) = True"

fun unresolvedCwd :: "cwdValue option \<Rightarrow> string" where
  "unresolvedCwd None = []"
| "unresolvedCwd (Some (CwdString s)) = s"
| "unresolvedCwd (Some (CwdUri p)) = p"

text \<open>
  \<open>getCwd\<close>. The imported \<open>sanitizeCwd\<close>, \<open>path.isAbsolute\<close> and \<open>path.join\<close> are
  parameters; \<open>root\<close> is the \<open>fsPath\<close> of the workspace root.
\<close>

definition getCwd ::
  "(string \<Rightarrow> string) \<Rightarrow> (string \<Rightarrow> bool) \<Rightarrow> (string \<Rightarrow> string \<Rightarrow> string) \<Rightarrow>
   IShellLaunchConfig \<Rightarrow> string option \<Rightarrow> VariableResolver option \<Rightarrow> string option \<Rightarrow> string option
     \<Rightarrow> string" where
  "getCwd sanitizeCwd isAbsolute pathJoin shell userHome variableResolver root customCwd =
     (if truthyCwd (slc_cwd shell) then
        (let unresolved = unresolvedCwd (slc_cwd shell);
             resolved = resolveCwd unresolved variableResolver
         in sanitizeCwd (if truthy resolved then the resolved else unresolved))
      else
        (let cwd =
               (if \<not> slc_ignoreConfigurationCwd shell \<and> truthy customCwd then
                  (let customCwd' =
                         (case variableResolver of
                            Some r \<Rightarrow> resolveCwd (the customCwd) variableResolver
                          | None \<Rightarrow> customCwd)
                   in if truthy customCwd' then
                        (if isAbsolute (the customCwd') then customCwd'
                         else (case root of
                                 Some rootPath \<Rightarrow> Some (pathJoin rootPath (the customCwd'))
                               | None \<Rightarrow> None))
                      else None)
                else None);
             cwd' =
               (if \<not> truthy cwd then
                  (case root of
                     Some rootPath \<Rightarrow> rootPath
                   | None \<Rightarrow> if truthy userHome then the userHome else [])
                else the cwd)
         in sanitizeCwd cwd'))"

subsection \<open>Paths sent to a shell\<close>

datatype resource = ResString string | ResUri string

datatype OperatingSystem = Windows | Macintosh | Linux

text \<open>The shell types the function tells apart; every other one is \<open>OtherShell\<close>.\<close>

datatype TerminalShellType = GitBash | Wsl | OtherShell

definition singleQuote :: char where
  "singleQuote = CHR 0x27"

definition doubleQuote :: char where
  "doubleQuote = CHR 0x22"

definition backslash :: char where
  "backslash = CHR 0x5C"

text \<open>The first statement: the path as a string, with the separators of the backend's system.\<close>

definition originalPath :: "resource \<Rightarrow> OperatingSystem option \<Rightarrow> bool \<Rightarrow> string" where
  "originalPath res os isWindowsFrontend =
     (case res of
        ResString s \<Rightarrow> s
      | ResUri fsPath \<Rightarrow>
          if isWindowsFrontend \<and> os \<noteq> Some Windows then replaceAll fsPath backslash ''/''
          else if \<not> isWindowsFrontend \<and> os = Some Windows then replaceAll fsPath CHR ''/'' [backslash]
          else fsPath)"

text \<open>
  \<open>preparePathForShell\<close>. The imported \<open>path.basename\<close> and \<open>escapeNonWindowsPath\<close> are
  parameters; \<open>backend\<close> is the backend's \<open>getWslPath(_, 'win-to-unix')\<close>, whose promise may
  reject, and so may the result.
\<close>

definition preparePathForShell ::
  "(string \<Rightarrow> string \<Rightarrow> string) \<Rightarrow> (string \<Rightarrow> string) \<Rightarrow>
   resource \<Rightarrow> string option \<Rightarrow> string \<Rightarrow> TerminalShellType option \<Rightarrow> (string \<Rightarrow> string option) option
     \<Rightarrow> OperatingSystem option \<Rightarrow> bool \<Rightarrow> string option" where
  "preparePathForShell basename escapeNonWindowsPath res executable title shellType backend os
       isWindowsFrontend =
     (let path = originalPath res os isWindowsFrontend
      in if \<not> truthy executable then Some path
         else
           (let hasSpace = includes_str path '' '';
                hasParens = (includes_str path ''('' \<or> includes_str path '')'');
                pathBasename = basename (the executable) ''.exe'';
                isPowerShell = (pathBasename = ''pwsh'' \<or> title = ''pwsh'' \<or>
                                pathBasename = ''powershell'' \<or> title = ''powershell'');
                wslPath = (case backend of None \<Rightarrow> Some path | Some getWslPath \<Rightarrow> getWslPath path)
            in if isPowerShell \<and> (hasSpace \<or> includes_str path [singleQuote]) then
                 Some (''& '' @ [singleQuote] @ replaceAll path singleQuote [singleQuote, singleQuote]
                         @ [singleQuote])
               else if hasParens \<and> isPowerShell then
                 Some (''& '' @ [singleQuote] @ path @ [singleQuote])
               else if os = Some Windows then
                 (if shellType \<noteq> None then
                    (if shellType = Some GitBash then
                       Some (escapeNonWindowsPath (replaceAll path backslash ''/''))
                     else if shellType = Some Wsl then wslPath
                     else if hasSpace then Some ([doubleQuote] @ path @ [doubleQuote])
                     else Some path)
                  else
                    (let lowerExecutable = toLowerCase (the executable)
                     in if includes_str lowerExecutable ''wsl'' \<or>
                           (includes_str lowerExecutable ''bash.exe'' \<and>
                            \<not> includes_str (toLowerCase lowerExecutable) ''git'')
                        then wslPath
                        else if hasSpace then Some ([doubleQuote] @ path @ [doubleQuote])
                        else Some path))
               else Some (escapeNonWindowsPath path)))"

text \<open>
  Modelled from the spec: \<open>path.basename\<close> lives in \<^verbatim>\<open>vs/base/common/path\<close>, which is not
  part of the sources at hand. The specification describes its use as "the executable's base
  name (extension stripped)": here the part after the last separator \<open>/\<close>, without the
  extension when the name ends with it and is longer than it.
\<close>

definition basename_posix :: "string \<Rightarrow> string \<Rightarrow> string" where
  "basename_posix p ext =
     (let name = last (split_at p CHR ''/'')
      in if suffix ext name \<and> name \<noteq> ext then take (length name - length ext) name else name)"

subsection \<open>Vocabulary of the statements\<close>

text \<open>
  The platform's notion of "the same key": keys are compared after \<open>foldKey\<close>, which lowers
  the case on Windows and is the identity elsewhere.
\<close>

definition foldKey :: "bool \<Rightarrow> string \<Rightarrow> string" where
  "foldKey isWindows key = (if isWindows then toLowerCase key else key)"


text \<open>The keys that \<open>addTerminalEnvironmentKeys\<close> may assign.\<close>

definition markerKeys :: "string list" where
  "markerKeys = [''TERM_PROGRAM'', ''TERM_PROGRAM_VERSION'', ''LANG'', ''COLORTERM'']"

text \<open>Resolution as \<open>createTerminalEnvironment\<close> applies it: only when a resolver is given.\<close>

definition resolved :: "VariableResolver option \<Rightarrow> ITerminalEnvironment \<Rightarrow> ITerminalEnvironment" where
  "resolved variableResolver env =
     (case variableResolver of None \<Rightarrow> env | Some r \<Rightarrow> resolveConfigurationVariables r env)"

text \<open>An optional object as the list of its entries.\<close>

definition entriesOf :: "ITerminalEnvironment option \<Rightarrow> ITerminalEnvironment" where
  "entriesOf obj = (case obj of None \<Rightarrow> [] | Some entries \<Rightarrow> entries)"

text \<open>
  The environment that the overlays are merged into: the copy of the base environment's
  non-null entries, sanitized.
\<close>

definition sanitizedBase :: "IProcessEnvironment \<Rightarrow> IProcessEnvironment" where
  "sanitizedBase baseEnv =
     sanitizeProcessEnvironment (mergeNonNullKeys [] (Some baseEnv))
       [''VSCODE_IPC_HOOK_CLI'', ''VSCODE_PROXY_URI'']"

text \<open>The key of \<open>env\<close> that \<open>mergeEnvironments\<close> mutates for the overlay key \<open>key\<close>.\<close>

definition matchedKey :: "bool \<Rightarrow> IProcessEnvironment \<Rightarrow> string \<Rightarrow> string" where
  "matchedKey isWindows env key = (if isWindows then actualKey key (keys env) else key)"

section \<open>Properties\<close>

subsection \<open>Objects\<close>

lemma setProp_new: "key \<notin> set (keys env) \<Longrightarrow> setProp env key value = env @ [(key, value)]"
  by (induction env) (auto simp: keys_def)

lemma isString_iff: "isString v \<longleftrightarrow> v \<noteq> Undefined \<and> v \<noteq> Null"
  by (cases v) auto

lemma keys_setProp:
  "keys (setProp env key val) = (if key \<in> set (keys env) then keys env else keys env @ [key])"
  by (induction env) (force simp: keys_def)+

lemma keys_deleteProp: "keys (deleteProp env key) = filter (\<lambda>k. k \<noteq> key) (keys env)"
  by (induction env) (auto simp: keys_def deleteProp_def)

lemma filter_setProp_other:
  "\<not> P key \<Longrightarrow> filter (\<lambda>(k, v). P k) (setProp env key value) = filter (\<lambda>(k, v). P k) env"
  by (induction env) auto

lemma filter_deleteProp_other:
  "\<not> P key \<Longrightarrow> filter (\<lambda>(k, v). P k) (deleteProp env key) = filter (\<lambda>(k, v). P k) env"
  by (induction env) (auto simp: deleteProp_def)

lemma actualKey_cases:
  "(actualKey key ks \<in> set ks \<and> toLowerCase (actualKey key ks) = toLowerCase key) \<or>
   (actualKey key ks = key \<and> (\<forall>k \<in> set ks. toLowerCase k \<noteq> toLowerCase key))"
  by (induction ks) auto

lemma actualKey_find:
  "actualKey key ks =
     (case find (\<lambda>k. toLowerCase k = toLowerCase key) ks of Some k \<Rightarrow> k | None \<Rightarrow> key)"
  by (induction ks) auto

lemma foldKey_matchedKey: "foldKey w (matchedKey w env key) = foldKey w key"
  using actualKey_cases[of key "keys env"] by (auto simp: foldKey_def matchedKey_def)

lemma mergeEnvironments_single:
  "mergeEnvironments w env (Some [(key, value)]) =
     (if value = Undefined then env else mergeEnvironmentValue env (matchedKey w env key) value)"
  by (simp add: mergeEnvironments_def matchedKey_def)

lemma mergeEnvironments_windows_append:
  "mergeEnvironments_windows env (a @ b) = mergeEnvironments_windows (mergeEnvironments_windows env a) b"
  by (induction a arbitrary: env) (auto simp: Let_def)

lemma mergeEnvironments_other_append:
  "mergeEnvironments_other env (a @ b) = mergeEnvironments_other (mergeEnvironments_other env a) b"
  by (induction a arbitrary: env) auto

lemma mergeEnvironments_append:
  "mergeEnvironments w env (Some (a @ b)) =
     mergeEnvironments w (mergeEnvironments w env (Some a)) (Some b)"
  by (simp add: mergeEnvironments_def mergeEnvironments_windows_append mergeEnvironments_other_append)

lemma mergeEnvironments_Cons:
  "mergeEnvironments w env (Some (e # rest)) =
     mergeEnvironments w (mergeEnvironments w env (Some [e])) (Some rest)"
  using mergeEnvironments_append[of w env "[e]" rest] by simp

lemma mergeEnvironments_Nil: "mergeEnvironments w env (Some []) = env"
  by (simp add: mergeEnvironments_def)

lemma class_mergeEnvironments_single:
  assumes "foldKey w key \<noteq> c"
  shows "filter (\<lambda>(k, v). foldKey w k = c) (mergeEnvironments w env (Some [(key, value)])) =
         filter (\<lambda>(k, v). foldKey w k = c) env"
proof -
  have "\<not> (foldKey w (matchedKey w env key) = c)" using assms by (simp add: foldKey_matchedKey)
  then show ?thesis
    by (simp add: mergeEnvironments_single mergeEnvironmentValue_def
          filter_setProp_other filter_deleteProp_other)
qed

lemma class_mergeEnvironments:
  "\<forall>k \<in> set (keys entries). foldKey w k \<noteq> c \<Longrightarrow>
   filter (\<lambda>(k, v). foldKey w k = c) (mergeEnvironments w env (Some entries)) =
   filter (\<lambda>(k, v). foldKey w k = c) env"
proof (induction entries arbitrary: env)
  case Nil
  then show ?case by (simp add: mergeEnvironments_Nil)
next
  case (Cons e entries)
  obtain key val where e: "e = (key, val)" by (cases e)
  have 1: "foldKey w key \<noteq> c" using Cons.prems e by (simp add: keys_def)
  have 2: "\<forall>k \<in> set (keys entries). foldKey w k \<noteq> c" using Cons.prems by (simp add: keys_def)
  have "filter (\<lambda>(k, v). foldKey w k = c) (mergeEnvironments w env (Some (e # entries))) =
        filter (\<lambda>(k, v). foldKey w k = c) (mergeEnvironments w env (Some [e]))"
    using Cons.IH[OF 2, of "mergeEnvironments w env (Some [e])"]
    by (simp only: mergeEnvironments_Cons[of w env e entries])
  also have "\<dots> = filter (\<lambda>(k, v). foldKey w k = c) env"
    using class_mergeEnvironments_single[OF 1, of env val] e by simp
  finally show ?case .
qed


lemma class_addTerminalEnvironmentKeys:
  assumes "\<forall>m \<in> set markerKeys. foldKey w m \<noteq> c"
  shows "filter (\<lambda>(k, v). foldKey w k = c) (addTerminalEnvironmentKeys env version locale mode) =
         filter (\<lambda>(k, v). foldKey w k = c) env"
  using assms
  by (simp add: addTerminalEnvironmentKeys_def Let_def markerKeys_def filter_setProp_other)

subsection \<open>The strict environment\<close>

lemma mergeNonNullKeys_loop_fresh:
  "distinct (keys other) \<Longrightarrow> set (keys other) \<inter> set (keys env) = {} \<Longrightarrow>
   mergeNonNullKeys_loop env other = env @ filter (\<lambda>(key, value). isString value) other"
proof (induction other arbitrary: env)
  case Nil
  then show ?case by simp
next
  case (Cons e other)
  obtain key val where e: "e = (key, val)" by (cases e)
  show ?case
  proof (cases "isString val")
    case True
    have fresh: "key \<notin> set (keys env)" using Cons.prems e by (auto simp: keys_def)
    have "set (keys other) \<inter> set (keys (env @ [(key, val)])) = {}"
      using Cons.prems e by (auto simp: keys_def)
    moreover have "distinct (keys other)" using Cons.prems by (simp add: keys_def)
    ultimately show ?thesis
      using Cons.IH[of "env @ [(key, val)]"] True fresh e
      by (simp add: setProp_new isString_iff)
  next
    case False
    have "set (keys other) \<inter> set (keys env) = {}" using Cons.prems by (auto simp: keys_def)
    moreover have "distinct (keys other)" using Cons.prems by (simp add: keys_def)
    ultimately show ?thesis using Cons.IH[of env] False e by (auto simp: isString_iff)
  qed
qed

text \<open>
  C1. With \<open>strictEnv\<close> set, \<open>createTerminalEnvironment\<close> returns exactly the entries of
  \<open>launchConfig.env\<close> whose values are strings, in their order: entries valued \<open>null\<close> or
  \<open>undefined\<close> are dropped, and neither the base environment, the configured environment, the
  resolver, the version nor the locale mode has any influence, so nothing is sanitized and no
  marker key is injected. Without a \<open>launchConfig.env\<close> the result is empty.
\<close>

theorem createTerminalEnvironment_strict:
  assumes "slc_strictEnv shellLaunchConfig"
    and "\<forall>entries. slc_env shellLaunchConfig = Some entries \<longrightarrow> distinct (keys entries)"
  shows "createTerminalEnvironment isWindows language shellLaunchConfig envFromConfig
           variableResolver version mode baseEnv =
         (case slc_env shellLaunchConfig of
            None \<Rightarrow> []
          | Some entries \<Rightarrow> filter (\<lambda>(key, value). isString value) entries)"
proof (cases "slc_env shellLaunchConfig")
  case None
  then show ?thesis using assms(1) by (simp add: createTerminalEnvironment_def mergeNonNullKeys_def)
next
  case (Some entries)
  then have "distinct (keys entries)" using assms(2) by simp
  then have "mergeNonNullKeys_loop [] entries = filter (\<lambda>(key, value). isString value) entries"
    using mergeNonNullKeys_loop_fresh[of entries "[]"] by (simp add: keys_def)
  then show ?thesis using assms(1) Some
    by (simp add: createTerminalEnvironment_def mergeNonNullKeys_def)
qed

theorem createTerminalEnvironment_strict_witness:
  "createTerminalEnvironment True ''en''
     \<lparr>slc_executable = None, slc_cwd = None, slc_env = Some [(''A'', Str ''1''), (''B'', Null)],
      slc_strictEnv = True, slc_ignoreConfigurationCwd = False\<rparr>
     (Some [(''C'', Str ''2'')]) None (Some ''1.0'') On
     [(''PATH'', Str ''/bin''), (''VSCODE_PROXY_URI'', Str ''u'')]
   = [(''A'', Str ''1'')]"
  using createTerminalEnvironment_strict
    [of "\<lparr>slc_executable = None, slc_cwd = None,
          slc_env = Some [(''A'', Str ''1''), (''B'', Null)],
          slc_strictEnv = True, slc_ignoreConfigurationCwd = False\<rparr>"
        True "''en''" "Some [(''C'', Str ''2'')]" None "Some ''1.0''" On
        "[(''PATH'', Str ''/bin''), (''VSCODE_PROXY_URI'', Str ''u'')]"]
  by (simp add: keys_def)

subsection \<open>Merging one overlay\<close>



lemma matchedKey_absent:
  "matchedKey w env key \<notin> set (keys (mergeEnvironments w env (Some [(key, Null)])))"
  by (simp add: mergeEnvironments_single mergeEnvironmentValue_def keys_deleteProp)









lemma sanitizeProcessEnvironment_keys:
  "keys (sanitizeProcessEnvironment env ks) = filter (\<lambda>k. k \<notin> set ks) (keys env)"
  by (induction ks arbitrary: env) (auto simp: keys_deleteProp conj_commute)


lemma createTerminalEnvironment_nonstrict:
  assumes "\<not> slc_strictEnv cfg"
  shows "createTerminalEnvironment w language cfg envFromConfig r version mode baseEnv =
         addTerminalEnvironmentKeys
           (mergeEnvironments w (sanitizedBase baseEnv)
              (Some (resolved r (entriesOf envFromConfig) @ resolved r (entriesOf (slc_env cfg)))))
           version (Some language) mode"
proof -
  have 1: "mergeEnvironments w env None = mergeEnvironments w env (Some [])" for env
    by (simp add: mergeEnvironments_def)
  show ?thesis using assms
    by (cases r; cases "slc_env cfg"; cases envFromConfig)
       (simp_all add: createTerminalEnvironment_def Let_def sanitizedBase_def resolved_def
          entriesOf_def mergeEnvironments_append 1 mergeEnvironments_Nil
          resolveConfigurationVariables_def)
qed

lemma map_of_setProp: "map_of (setProp env key val) = (map_of env)(key \<mapsto> val)"
  by (induction env) (auto simp: fun_eq_iff)

lemma map_of_deleteProp: "map_of (deleteProp env key) = (map_of env)(key := None)"
  by (induction env) (auto simp: fun_eq_iff deleteProp_def)

lemma deleteProp_absent: "key \<notin> set (keys env) \<Longrightarrow> deleteProp env key = env"
  by (induction env) (auto simp: deleteProp_def keys_def)

lemma find_key_Some:
  "find (\<lambda>k. toLowerCase k = toLowerCase key) ks = Some k \<Longrightarrow> k \<in> set ks"
  by (induction ks) (auto split: if_splits)

lemma find_key_None:
  "find (\<lambda>k. toLowerCase k = toLowerCase key) ks = None \<Longrightarrow> key \<notin> set ks"
  by (induction ks) (auto split: if_splits)

lemma mergeEnvironments_other_closed:
  "distinct (keys other) \<Longrightarrow>
   map_of (mergeEnvironments False base (Some other)) k =
     (case map_of other k of
        Some (Str s) \<Rightarrow> Some (Str s)
      | Some Null \<Rightarrow> None
      | Some Undefined \<Rightarrow> map_of base k
      | None \<Rightarrow> map_of base k)"
proof (induction other rule: rev_induct)
  case Nil
  then show ?case by (simp add: mergeEnvironments_Nil)
next
  case (snoc e other)
  obtain key val where e: "e = (key, val)" by (cases e)
  have d: "distinct (keys other)" and fresh: "key \<notin> set (keys other)"
    using snoc.prems e by (auto simp: keys_def)
  have none: "map_of other key = None" using fresh by (simp add: keys_def map_of_eq_None_iff)
  let ?E = "mergeEnvironments False base (Some other)"
  have step: "mergeEnvironments False base (Some (other @ [e])) =
        (if val = Undefined then ?E else mergeEnvironmentValue ?E key val)"
    using e by (simp add: mergeEnvironments_append mergeEnvironments_single matchedKey_def)
  show ?case
  proof (cases "k = key")
    case True
    then show ?thesis using snoc.IH[OF d] none e step
      by (cases val) (simp_all add: mergeEnvironmentValue_def map_of_setProp map_of_deleteProp
            map_add_def)
  next
    case False
    then show ?thesis using snoc.IH[OF d] e step
      by (cases val) (simp_all add: mergeEnvironmentValue_def map_of_setProp map_of_deleteProp
            map_add_def split: option.splits)
  qed
qed

lemma mergeEnvironments_windows_Str:
  "(case find (\<lambda>k. toLowerCase k = toLowerCase key) (keys base) of
      Some baseKey \<Rightarrow>
        keys (mergeEnvironments True base (Some [(key, Str s)])) = keys base \<and>
        map_of (mergeEnvironments True base (Some [(key, Str s)])) = (map_of base)(baseKey \<mapsto> Str s)
    | None \<Rightarrow> mergeEnvironments True base (Some [(key, Str s)]) = base @ [(key, Str s)])"
  by (auto simp: mergeEnvironments_single mergeEnvironmentValue_def matchedKey_def
        actualKey_find keys_setProp map_of_setProp setProp_new
        dest: find_key_Some find_key_None split: option.splits)

lemma mergeEnvironments_windows_Null:
  "mergeEnvironments True base (Some [(key, Null)]) =
     (case find (\<lambda>k. toLowerCase k = toLowerCase key) (keys base) of
        Some baseKey \<Rightarrow> filter (\<lambda>(k, v). k \<noteq> baseKey) base
      | None \<Rightarrow> base)"
proof (cases "find (\<lambda>k. toLowerCase k = toLowerCase key) (keys base)")
  case None
  then have "deleteProp base key = base" by (simp add: deleteProp_absent find_key_None)
  then show ?thesis using None
    by (simp add: mergeEnvironments_single mergeEnvironmentValue_def matchedKey_def actualKey_find)
next
  case (Some baseKey)
  then show ?thesis
    by (simp add: mergeEnvironments_single mergeEnvironmentValue_def matchedKey_def
          actualKey_find deleteProp_def)
qed

text \<open>
  C2. \<open>mergeEnvironments\<close> returns the mutated base. Without an overlay the base is unchanged;
  the entries of an overlay are merged one after another, in the overlay's order; an entry
  valued \<open>undefined\<close> changes nothing. Off Windows an entry with a string value assigns it
  under exactly its key (an existing key keeps its place, a new key goes last) and an entry
  valued \<open>null\<close> deletes exactly its key, so that an overlay with distinct keys acts key by key.
  On Windows the key mutated is the first key of the base whose lower-case form equals that of
  the overlay key: a string is assigned under that key, keeping the keys of the base as they
  are (no second key is added), \<open>null\<close> deletes that key; when no key of the base matches, a
  string entry is added last under the overlay's own key and \<open>null\<close> changes nothing.
  Merging \<open>{Path: "x"}\<close> into \<open>{PATH: "y"}\<close> on Windows gives \<open>{PATH: "x"}\<close>.
\<close>

theorem mergeEnvironments_overlay:
  "mergeEnvironments isWindows base None = base \<and>
   mergeEnvironments isWindows base (Some (entries @ [(key, val)])) =
     mergeEnvironments isWindows (mergeEnvironments isWindows base (Some entries))
       (Some [(key, val)]) \<and>
   mergeEnvironments isWindows base (Some [(key, Undefined)]) = base \<and>
   map_of (mergeEnvironments False base (Some [(key, Str s)])) = (map_of base)(key \<mapsto> Str s) \<and>
   keys (mergeEnvironments False base (Some [(key, Str s)])) =
     (if key \<in> set (keys base) then keys base else keys base @ [key]) \<and>
   mergeEnvironments False base (Some [(key, Null)]) = filter (\<lambda>(k, v). k \<noteq> key) base \<and>
   (distinct (keys other) \<longrightarrow>
    map_of (mergeEnvironments False base (Some other)) k =
      (case map_of other k of
         Some (Str s) \<Rightarrow> Some (Str s)
       | Some Null \<Rightarrow> None
       | Some Undefined \<Rightarrow> map_of base k
       | None \<Rightarrow> map_of base k)) \<and>
   (case find (\<lambda>k. toLowerCase k = toLowerCase key) (keys base) of
      Some baseKey \<Rightarrow>
        keys (mergeEnvironments True base (Some [(key, Str s)])) = keys base \<and>
        map_of (mergeEnvironments True base (Some [(key, Str s)])) = (map_of base)(baseKey \<mapsto> Str s)
    | None \<Rightarrow> mergeEnvironments True base (Some [(key, Str s)]) = base @ [(key, Str s)]) \<and>
   mergeEnvironments True base (Some [(key, Null)]) =
     (case find (\<lambda>k. toLowerCase k = toLowerCase key) (keys base) of
        Some baseKey \<Rightarrow> filter (\<lambda>(k, v). k \<noteq> baseKey) base
      | None \<Rightarrow> base) \<and>
   mergeEnvironments True [(''PATH'', Str ''y'')] (Some [(''Path'', Str ''x'')]) =
     [(''PATH'', Str ''x'')]"
proof (intro conjI)
  show "mergeEnvironments isWindows base None = base" by (simp add: mergeEnvironments_def)
  show "mergeEnvironments isWindows base (Some (entries @ [(key, val)])) =
           mergeEnvironments isWindows (mergeEnvironments isWindows base (Some entries))
             (Some [(key, val)])" by (rule mergeEnvironments_append)
  show "mergeEnvironments isWindows base (Some [(key, Undefined)]) = base"
    by (simp add: mergeEnvironments_single)
  show "map_of (mergeEnvironments False base (Some [(key, Str s)])) = (map_of base)(key \<mapsto> Str s)"
    by (simp add: mergeEnvironments_single mergeEnvironmentValue_def matchedKey_def map_of_setProp)
  show "keys (mergeEnvironments False base (Some [(key, Str s)])) =
           (if key \<in> set (keys base) then keys base else keys base @ [key])"
    by (simp add: mergeEnvironments_single mergeEnvironmentValue_def matchedKey_def keys_setProp)
  show "mergeEnvironments False base (Some [(key, Null)]) = filter (\<lambda>(k, v). k \<noteq> key) base"
    by (simp add: mergeEnvironments_single mergeEnvironmentValue_def matchedKey_def deleteProp_def)
  show "distinct (keys other) \<longrightarrow>
         map_of (mergeEnvironments False base (Some other)) k =
           (case map_of other k of
              Some (Str s) \<Rightarrow> Some (Str s)
            | Some Null \<Rightarrow> None
            | Some Undefined \<Rightarrow> map_of base k
            | None \<Rightarrow> map_of base k)"
    using mergeEnvironments_other_closed by blast
  show "(case find (\<lambda>k. toLowerCase k = toLowerCase key) (keys base) of
            Some baseKey \<Rightarrow>
              keys (mergeEnvironments True base (Some [(key, Str s)])) = keys base \<and>
              map_of (mergeEnvironments True base (Some [(key, Str s)])) = (map_of base)(baseKey \<mapsto> Str s)
          | None \<Rightarrow> mergeEnvironments True base (Some [(key, Str s)]) = base @ [(key, Str s)])"
    by (rule mergeEnvironments_windows_Str)
  show "mergeEnvironments True base (Some [(key, Null)]) =
           (case find (\<lambda>k. toLowerCase k = toLowerCase key) (keys base) of
              Some baseKey \<Rightarrow> filter (\<lambda>(k, v). k \<noteq> baseKey) base
            | None \<Rightarrow> base)"
    by (rule mergeEnvironments_windows_Null)
  show "mergeEnvironments True [(''PATH'', Str ''y'')] (Some [(''Path'', Str ''x'')]) =
           [(''PATH'', Str ''x'')]"
    by (simp add: mergeEnvironments_def keys_def mergeEnvironmentValue_def toLowerCase_def
          toLowerChar_def)
qed

theorem mergeEnvironments_overlay_witness:
  "distinct (keys [(''A'', Null), (''B'', Str ''2''), (''C'', Undefined)]) \<and>
   map_of (mergeEnvironments False [(''A'', Str ''0''), (''C'', Str ''1'')]
             (Some [(''A'', Null), (''B'', Str ''2''), (''C'', Undefined)])) ''A'' = None \<and>
   mergeEnvironments True [(''PATH'', Str ''y''), (''path'', Str ''z'')] (Some [(''Path'', Null)]) =
     [(''path'', Str ''z'')]"
  using mergeEnvironments_overlay
    [where base = "[(''A'', Str ''0''), (''C'', Str ''1'')]"
       and other = "[(''A'', Null), (''B'', Str ''2''), (''C'', Undefined)]" and k = "''A''"]
    mergeEnvironments_overlay
    [where base = "[(''PATH'', Str ''y''), (''path'', Str ''z'')]" and key = "''Path''"]
  by (simp add: keys_def toLowerCase_def toLowerChar_def)

subsection \<open>The environment without \<open>strictEnv\<close>\<close>



lemma class_createTerminalEnvironment:
  assumes "\<not> slc_strictEnv cfg"
    and "resolved r (entriesOf envFromConfig) @ resolved r (entriesOf (slc_env cfg)) =
           pre @ (key, val) # post"
    and "\<forall>k \<in> set (keys post). foldKey w k \<noteq> foldKey w key"
    and "\<forall>m \<in> set markerKeys. foldKey w m \<noteq> foldKey w key"
  shows "filter (\<lambda>(k, v). foldKey w k = foldKey w key)
           (createTerminalEnvironment w language cfg envFromConfig r version mode baseEnv) =
         filter (\<lambda>(k, v). foldKey w k = foldKey w key)
           (mergeEnvironments w (mergeEnvironments w (sanitizedBase baseEnv) (Some pre))
              (Some [(key, val)]))"
proof -
  let ?E = "mergeEnvironments w (sanitizedBase baseEnv) (Some pre)"
  let ?E1 = "mergeEnvironments w ?E (Some [(key, val)])"
  have "mergeEnvironments w (sanitizedBase baseEnv) (Some (pre @ (key, val) # post)) =
        mergeEnvironments w ?E1 (Some post)"
    using mergeEnvironments_append[of w "sanitizedBase baseEnv" pre "(key, val) # post"]
      mergeEnvironments_Cons[of w ?E "(key, val)" post] by simp
  then have "createTerminalEnvironment w language cfg envFromConfig r version mode baseEnv =
      addTerminalEnvironmentKeys (mergeEnvironments w ?E1 (Some post)) version (Some language) mode"
    using createTerminalEnvironment_nonstrict[OF assms(1)] assms(2) by simp
  then show ?thesis
    using class_addTerminalEnvironmentKeys[OF assms(4)] class_mergeEnvironments[OF assms(3)]
    by simp
qed



lemma createTerminalEnvironment_last_Null_matched:
  assumes "\<not> slc_strictEnv cfg"
    and "resolved r (entriesOf envFromConfig) @ resolved r (entriesOf (slc_env cfg)) =
           pre @ (key, Null) # post"
    and "\<forall>k \<in> set (keys post). foldKey w k \<noteq> foldKey w key"
    and "\<forall>m \<in> set markerKeys. foldKey w m \<noteq> foldKey w key"
  shows "matchedKey w (mergeEnvironments w (sanitizedBase baseEnv) (Some pre)) key
           \<notin> set (keys (createTerminalEnvironment w language cfg envFromConfig r version mode baseEnv))"
proof
  let ?E = "mergeEnvironments w (sanitizedBase baseEnv) (Some pre)"
  let ?R = "createTerminalEnvironment w language cfg envFromConfig r version mode baseEnv"
  let ?P = "\<lambda>(k, v). foldKey w k = foldKey w key"
  assume "matchedKey w ?E key \<in> set (keys ?R)"
  then obtain v where "(matchedKey w ?E key, v) \<in> set ?R" by (auto simp: keys_def)
  then have "(matchedKey w ?E key, v) \<in> set (filter ?P ?R)"
    by (simp add: foldKey_matchedKey)
  then have "(matchedKey w ?E key, v) \<in> set (filter ?P (mergeEnvironments w ?E (Some [(key, Null)])))"
    by (simp only: class_createTerminalEnvironment[OF assms])
  then have "matchedKey w ?E key \<in> set (keys (mergeEnvironments w ?E (Some [(key, Null)])))"
    by (force simp: keys_def)
  then show False using matchedKey_absent[of w ?E key] by simp
qed






















subsection \<open>The locale variable\<close>

lemma split_at_no_separator: "sep \<notin> set s \<Longrightarrow> split_at s sep = [s]"
  by (induction s) auto

lemma split_at_ne: "split_at s sep \<noteq> []"
  by (induction s) (auto split: list.splits)

lemma split_at_append:
  "sep \<notin> set p \<Longrightarrow> split_at (p @ sep # rest) sep = p # split_at rest sep"
  by (induction p) (auto split: list.splits)

lemma split_at_join:
  "segs \<noteq> [] \<Longrightarrow> \<forall>s \<in> set segs. sep \<notin> set s \<Longrightarrow> split_at (join segs [sep]) sep = segs"
proof (induction segs "[sep]" rule: join.induct)
  case 1
  then show ?case by simp
next
  case (2 p)
  then show ?case by (simp add: split_at_no_separator)
next
  case (3 p q ps)
  then show ?case by (simp add: split_at_append)
qed

lemma join_two_ne: "2 \<le> length segs \<Longrightarrow> sep \<noteq> [] \<Longrightarrow> join segs sep \<noteq> []"
  by (cases segs; cases "tl segs") auto


text \<open>
  C4, amended. For a language tag of two or more segments separated by dashes,
  \<open>getLangEnvVariable\<close> returns all the segments joined by underscores, the second one in
  upper case and every other one as it is, followed by \<open>.UTF-8\<close>. For exactly two segments
  this is the first, an underscore, the second in upper case, and \<open>.UTF-8\<close>:
  \<open>getLangEnvVariable("en-gb") = "en_GB.UTF-8"\<close>.
\<close>

theorem getLangEnvVariable_segments:
  assumes "2 \<le> length segs" and "\<forall>s \<in> set segs. CHR ''-'' \<notin> set s"
  shows "getLangEnvVariable (Some (join segs ''-'')) =
         join (segs[1 := toUpperCase (segs ! 1)]) ''_'' @ ''.UTF-8''"
proof -
  have ne: "segs \<noteq> []" using assms(1) by auto
  have "split_at (join segs ''-'') CHR ''-'' = segs"
    using split_at_join[OF ne assms(2)] by simp
  moreover have "join segs ''-'' \<noteq> []" using assms(1) by (simp add: join_two_ne)
  moreover have "length segs \<noteq> 0" and "length segs \<noteq> 1" using assms(1) by auto
  ultimately show ?thesis
    by (simp only: getLangEnvVariable_def Let_def option.case if_False if_True not_False_eq_True)
qed


theorem getLangEnvVariable_segments_witness:
  "getLangEnvVariable (Some ''en-gb'') = ''en_GB.UTF-8'' \<and>
   getLangEnvVariable (Some ''zh-hans-cn'') = ''zh_HANS_cn.UTF-8''"
  using getLangEnvVariable_segments[of "[''en'', ''gb'']"]
    getLangEnvVariable_segments[of "[''zh'', ''hans'', ''cn'']"]
  by (simp add: toUpperCase_def toUpperChar_def)


text \<open>
  C4 as stated does not hold for a tag of three segments: the third segment is not ignored,
  \<open>"zh-hans-cn"\<close> gives \<open>"zh_HANS_cn.UTF-8"\<close>.
\<close>

theorem getLangEnvVariable_segments_counterexample:
  "split_at ''zh-hans-cn'' CHR ''-'' = [''zh'', ''hans'', ''cn''] \<and>
   getLangEnvVariable (Some ''zh-hans-cn'') \<noteq> ''zh'' @ ''_'' @ toUpperCase ''hans'' @ ''.UTF-8''"
  by code_simp


lemma languageVariants_keys:
  "\<forall>(k, v) \<in> set languageVariants. k \<noteq> [] \<and> CHR ''-'' \<notin> set k"
  by (simp add: languageVariants_def)

lemma objectPrototype_keys:
  "\<forall>(k, v) \<in> set objectPrototype. k \<noteq> [] \<and> CHR ''-'' \<notin> set k"
  by (simp add: objectPrototype_def)

lemma getLangEnvVariable_known:
  assumes "map_of languageVariants tag = Some variant"
  shows "getLangEnvVariable (Some tag) = tag @ ''_'' @ variant @ ''.UTF-8''"
proof -
  have m: "(tag, variant) \<in> set languageVariants" using assms by (rule map_of_SomeD)
  then have "tag \<noteq> []" and "CHR ''-'' \<notin> set tag" using languageVariants_keys by auto
  moreover have "inLanguageVariants tag" using m by (force simp: inLanguageVariants_def)
  ultimately show ?thesis using assms
    by (simp add: getLangEnvVariable_def Let_def split_at_no_separator languageVariantOf_def)
qed

lemma getLangEnvVariable_inherited:
  assumes "map_of languageVariants tag = None" and "map_of objectPrototype tag = Some printed"
  shows "getLangEnvVariable (Some tag) = tag @ ''_'' @ printed @ ''.UTF-8''"
proof -
  have m: "(tag, printed) \<in> set objectPrototype" using assms(2) by (rule map_of_SomeD)
  then have "tag \<noteq> []" and "CHR ''-'' \<notin> set tag" using objectPrototype_keys by auto
  moreover have "inLanguageVariants tag" using m by (force simp: inLanguageVariants_def)
  ultimately show ?thesis using assms
    by (simp add: getLangEnvVariable_def Let_def split_at_no_separator languageVariantOf_def)
qed

lemma getLangEnvVariable_unknown:
  assumes "tag \<noteq> []" and "CHR ''-'' \<notin> set tag" and "map_of languageVariants tag = None"
    and "map_of objectPrototype tag = None"
  shows "getLangEnvVariable (Some tag) = tag @ ''.UTF-8''"
proof -
  have "\<not> inLanguageVariants tag"
    using assms(3,4) by (simp add: inLanguageVariants_def map_of_eq_None_iff)
  then show ?thesis using assms(1,2)
    by (simp add: getLangEnvVariable_def Let_def split_at_no_separator)
qed

text \<open>
  C5. What the code does for a tag of at most one segment. Without a tag (\<open>undefined\<close>, or
  the empty string, which is falsy) \<open>getLangEnvVariable\<close> returns \<open>en_US.UTF-8\<close>. For a tag
  that is a key of the table \<open>languageVariants\<close> the result is the tag, an underscore, the
  table's region and \<open>.UTF-8\<close>: \<open>"fr"\<close> gives \<open>"fr_FR.UTF-8"\<close>, \<open>"pt"\<close> gives
  \<open>"pt_BR.UTF-8"\<close>. For a non-empty tag without a dash that is not a key of the table, the
  result is the tag and \<open>.UTF-8\<close>, as for \<open>"xx"\<close>, only if the tag is not a name inherited
  from \<open>Object.prototype\<close> either. For an inherited name the test \<open>in\<close> succeeds as well, and
  the code appends the inherited value where the claim has no region: \<open>"constructor"\<close>, which
  is not in the table, gives \<open>"constructor_function Object() { [native code] }.UTF-8"\<close>.
\<close>

theorem getLangEnvVariable_single:
  "getLangEnvVariable None = ''en_US.UTF-8'' \<and>
   getLangEnvVariable (Some []) = ''en_US.UTF-8'' \<and>
   (\<forall>variant. map_of languageVariants tag = Some variant \<longrightarrow>
      getLangEnvVariable (Some tag) = tag @ ''_'' @ variant @ ''.UTF-8'') \<and>
   (tag \<noteq> [] \<and> CHR ''-'' \<notin> set tag \<and> map_of languageVariants tag = None \<and>
    map_of objectPrototype tag = None \<longrightarrow>
      getLangEnvVariable (Some tag) = tag @ ''.UTF-8'') \<and>
   (\<forall>printed. map_of languageVariants tag = None \<and> map_of objectPrototype tag = Some printed \<longrightarrow>
      getLangEnvVariable (Some tag) = tag @ ''_'' @ printed @ ''.UTF-8'') \<and>
   getLangEnvVariable (Some ''fr'') = ''fr_FR.UTF-8'' \<and>
   getLangEnvVariable (Some ''pt'') = ''pt_BR.UTF-8'' \<and>
   getLangEnvVariable (Some ''xx'') = ''xx.UTF-8'' \<and>
   map_of languageVariants ''constructor'' = None \<and>
   getLangEnvVariable (Some ''constructor'') =
     ''constructor_function Object() { [native code] }.UTF-8''"
proof (intro conjI allI impI)
  show "getLangEnvVariable None = ''en_US.UTF-8''" by (simp add: getLangEnvVariable_def)
  show "getLangEnvVariable (Some []) = ''en_US.UTF-8''" by (simp add: getLangEnvVariable_def)
  show "getLangEnvVariable (Some tag) = tag @ ''_'' @ variant @ ''.UTF-8''"
    if "map_of languageVariants tag = Some variant" for variant
    using that by (rule getLangEnvVariable_known)
  show "getLangEnvVariable (Some tag) = tag @ ''.UTF-8''"
    if "tag \<noteq> [] \<and> CHR ''-'' \<notin> set tag \<and> map_of languageVariants tag = None \<and>
        map_of objectPrototype tag = None"
    using that by (simp add: getLangEnvVariable_unknown)
  show "getLangEnvVariable (Some tag) = tag @ ''_'' @ printed @ ''.UTF-8''"
    if "map_of languageVariants tag = None \<and> map_of objectPrototype tag = Some printed"
    for printed
    using that by (simp add: getLangEnvVariable_inherited)
  show "getLangEnvVariable (Some ''fr'') = ''fr_FR.UTF-8''" by code_simp
  show "getLangEnvVariable (Some ''pt'') = ''pt_BR.UTF-8''" by code_simp
  show "getLangEnvVariable (Some ''xx'') = ''xx.UTF-8''" by code_simp
  show "map_of languageVariants ''constructor'' = None" by code_simp
  show "getLangEnvVariable (Some ''constructor'') =
     ''constructor_function Object() { [native code] }.UTF-8''" by code_simp
qed

theorem getLangEnvVariable_single_witness:
  "map_of languageVariants ''ja'' = Some ''JP'' \<and>
   getLangEnvVariable (Some ''ja'') = ''ja_JP.UTF-8'' \<and>
   map_of languageVariants ''tlh'' = None \<and>
   map_of objectPrototype ''tlh'' = None \<and>
   getLangEnvVariable (Some ''tlh'') = ''tlh.UTF-8'' \<and>
   map_of languageVariants ''toString'' = None \<and>
   getLangEnvVariable (Some ''toString'') = ''toString_function toString() { [native code] }.UTF-8''"
proof -
  have 1: "map_of languageVariants ''ja'' = Some ''JP''" by code_simp
  have 2: "map_of languageVariants ''tlh'' = None" by code_simp
  have 3: "map_of objectPrototype ''tlh'' = None" by code_simp
  have 4: "map_of languageVariants ''toString'' = None" by code_simp
  have 5: "map_of objectPrototype ''toString'' = Some ''function toString() { [native code] }''"
    by code_simp
  show ?thesis
    using getLangEnvVariable_single[of "''ja''"] getLangEnvVariable_single[of "''tlh''"]
      getLangEnvVariable_single[of "''toString''"] 1 2 3 4 5
    by simp
qed

lemma searchAtEnd_suffix: "searchAtEnd lit s = suffix lit s"
  by (induction s) (auto simp: suffix_Cons)

lemma searchThenAny_iff:
  "searchThenAny lit s \<longleftrightarrow>
     (\<exists>pre c post. s = pre @ lit @ c # post \<and> \<not> lineTerminator c)"
proof (induction s)
  case Nil
  then show ?case by simp
next
  case (Cons c0 cs)
  have here: "(prefix lit (c0 # cs) \<and>
        (case drop (length lit) (c0 # cs) of [] \<Rightarrow> False | d # ds \<Rightarrow> \<not> lineTerminator d)) \<longleftrightarrow>
        (\<exists>c post. c0 # cs = lit @ c # post \<and> \<not> lineTerminator c)"
  proof
    assume a: "prefix lit (c0 # cs) \<and>
        (case drop (length lit) (c0 # cs) of [] \<Rightarrow> False | d # ds \<Rightarrow> \<not> lineTerminator d)"
    then obtain zs where zs: "c0 # cs = lit @ zs" by (auto simp: prefix_def)
    then have "drop (length lit) (c0 # cs) = zs" by simp
    then obtain d ds where "zs = d # ds" "\<not> lineTerminator d"
      using a by (cases zs) auto
    then show "\<exists>c post. c0 # cs = lit @ c # post \<and> \<not> lineTerminator c" using zs by blast
  next
    assume "\<exists>c post. c0 # cs = lit @ c # post \<and> \<not> lineTerminator c"
    then obtain c post where e: "c0 # cs = lit @ c # post" "\<not> lineTerminator c" by blast
    then have "prefix lit (c0 # cs)" and "drop (length lit) (c0 # cs) = c # post" by auto
    then show "prefix lit (c0 # cs) \<and>
        (case drop (length lit) (c0 # cs) of [] \<Rightarrow> False | d # ds \<Rightarrow> \<not> lineTerminator d)"
      using e(2) by simp
  qed
  have "(\<exists>pre c post. c0 # cs = pre @ lit @ c # post \<and> \<not> lineTerminator c) \<longleftrightarrow>
        (\<exists>c post. c0 # cs = lit @ c # post \<and> \<not> lineTerminator c) \<or>
        (\<exists>pre c post. cs = pre @ lit @ c # post \<and> \<not> lineTerminator c)"
  proof
    assume "\<exists>pre c post. c0 # cs = pre @ lit @ c # post \<and> \<not> lineTerminator c"
    then obtain pre c post where e: "c0 # cs = pre @ lit @ c # post" "\<not> lineTerminator c" by blast
    show "(\<exists>c post. c0 # cs = lit @ c # post \<and> \<not> lineTerminator c) \<or>
        (\<exists>pre c post. cs = pre @ lit @ c # post \<and> \<not> lineTerminator c)"
    proof (cases pre)
      case Nil
      then show ?thesis using e by auto
    next
      case (Cons a pre')
      then have "cs = pre' @ lit @ c # post" using e by simp
      then show ?thesis using e(2) by blast
    qed
  next
    assume "(\<exists>c post. c0 # cs = lit @ c # post \<and> \<not> lineTerminator c) \<or>
        (\<exists>pre c post. cs = pre @ lit @ c # post \<and> \<not> lineTerminator c)"
    then show "\<exists>pre c post. c0 # cs = pre @ lit @ c # post \<and> \<not> lineTerminator c"
    proof
      assume "\<exists>c post. c0 # cs = lit @ c # post \<and> \<not> lineTerminator c"
      then obtain c post where "c0 # cs = [] @ lit @ c # post" "\<not> lineTerminator c" by auto
      then show ?thesis by blast
    next
      assume "\<exists>pre c post. cs = pre @ lit @ c # post \<and> \<not> lineTerminator c"
      then obtain pre c post where "c0 # cs = (c0 # pre) @ lit @ c # post" "\<not> lineTerminator c"
        by auto
      then show ?thesis by blast
    qed
  qed
  then show ?case using Cons.IH here by simp
qed

lemma auto_mode:
  "shouldSetLangEnvVariable env Auto \<longleftrightarrow>
     \<not> (\<exists>lang. getProp env ''LANG'' = Str lang \<and>
           (suffix ''.UTF-8'' lang \<or> suffix ''.utf8'' lang \<or>
            (\<exists>pre c post. lang = pre @ ''.euc'' @ c # post \<and> \<not> lineTerminator c)))"
proof (cases "getProp env ''LANG''")
  case (Str lang)
  show ?thesis
  proof (cases "lang = []")
    case True
    then show ?thesis using Str
      by (simp add: shouldSetLangEnvVariable_def Let_def)
  next
    case False
    then show ?thesis using Str
      by (simp add: shouldSetLangEnvVariable_def Let_def searchAtEnd_suffix
            searchThenAny_iff[of "''.euc''" lang])
  qed
next
  case Null
  then show ?thesis by (simp add: shouldSetLangEnvVariable_def Let_def)
next
  case Undefined
  then show ?thesis by (simp add: shouldSetLangEnvVariable_def Let_def)
qed


text \<open>
  C6, amended. \<open>shouldSetLangEnvVariable\<close> is true in mode \<open>on\<close> and false in mode \<open>off\<close>.
  In mode \<open>auto\<close> it is true unless \<open>env.LANG\<close> is a string that ends with \<open>.UTF-8\<close>, ends
  with \<open>.utf8\<close>, or contains \<open>.euc\<close> followed by at least one character that is not a line
  terminator. So it is false for \<open>{LANG: "en_US.UTF-8"}\<close> and true for \<open>{}\<close> and for
  \<open>{LANG: "C"}\<close>.
\<close>

theorem shouldSetLangEnvVariable_modes:
  "shouldSetLangEnvVariable env On \<and>
   \<not> shouldSetLangEnvVariable env Off \<and>
   (shouldSetLangEnvVariable env Auto \<longleftrightarrow>
      \<not> (\<exists>lang. getProp env ''LANG'' = Str lang \<and>
            (suffix ''.UTF-8'' lang \<or> suffix ''.utf8'' lang \<or>
             (\<exists>pre c post. lang = pre @ ''.euc'' @ c # post \<and> \<not> lineTerminator c)))) \<and>
   \<not> shouldSetLangEnvVariable [(''LANG'', Str ''en_US.UTF-8'')] Auto \<and>
   shouldSetLangEnvVariable [] Auto \<and>
   shouldSetLangEnvVariable [(''LANG'', Str ''C'')] Auto"
proof (intro conjI)
  show "shouldSetLangEnvVariable env On" by (simp add: shouldSetLangEnvVariable_def)
  show "\<not> shouldSetLangEnvVariable env Off" by (simp add: shouldSetLangEnvVariable_def)
  show "shouldSetLangEnvVariable env Auto \<longleftrightarrow>
      \<not> (\<exists>lang. getProp env ''LANG'' = Str lang \<and>
            (suffix ''.UTF-8'' lang \<or> suffix ''.utf8'' lang \<or>
             (\<exists>pre c post. lang = pre @ ''.euc'' @ c # post \<and> \<not> lineTerminator c)))"
    by (rule auto_mode)
  show "\<not> shouldSetLangEnvVariable [(''LANG'', Str ''en_US.UTF-8'')] Auto" by code_simp
  show "shouldSetLangEnvVariable [] Auto" by code_simp
  show "shouldSetLangEnvVariable [(''LANG'', Str ''C'')] Auto" by code_simp
qed


theorem shouldSetLangEnvVariable_modes_witness:
  "\<not> shouldSetLangEnvVariable [(''LANG'', Str ''ja_JP.eucJP'')] Auto"
proof -
  have "getProp [(''LANG'', Str ''ja_JP.eucJP'')] ''LANG'' = Str ''ja_JP.eucJP''"
    by (simp add: getProp_def)
  moreover have "''ja_JP.eucJP'' = ''ja_JP'' @ ''.euc'' @ CHR ''J'' # ''P''" by simp
  moreover have "\<not> lineTerminator CHR ''J''" by (simp add: lineTerminator_def)
  ultimately show ?thesis
    using shouldSetLangEnvVariable_modes[of "[(''LANG'', Str ''ja_JP.eucJP'')]"] by blast
qed


text \<open>
  C6 as stated, with \<open>.euc\<close> followed by any characters, does not hold: the \<open>.\<close> of
  \<open>/\.euc.+/\<close> does not match a line terminator, so a \<open>LANG\<close> in which \<open>.euc\<close> is followed
  by a line feed only is not recognised, and the function returns true.
\<close>

theorem shouldSetLangEnvVariable_modes_counterexample:
  "''ja_JP.euc'' @ [CHR 0x0A] = ''ja_JP'' @ ''.euc'' @ CHR 0x0A # [] \<and>
   shouldSetLangEnvVariable [(''LANG'', Str (''ja_JP.euc'' @ [CHR 0x0A]))] Auto"
  by code_simp


subsection \<open>The working directory\<close>

text \<open>
  C8, amended. When \<open>shell.cwd\<close> is a URI or a non-empty string, \<open>getCwd\<close> returns the
  sanitized resolution of it when the resolver yields a non-empty string, and the sanitized
  unresolved literal when there is no resolver, when the resolver fails, or when it yields the
  empty string. The configured cwd, the workspace root and the user's home have no influence.
\<close>

theorem getCwd_explicit:
  assumes "truthyCwd (slc_cwd shell)"
  shows "getCwd sanitizeCwd isAbsolute pathJoin shell userHome variableResolver root customCwd =
           sanitizeCwd
             (case variableResolver of
                None \<Rightarrow> unresolvedCwd (slc_cwd shell)
              | Some r \<Rightarrow>
                  (case r (unresolvedCwd (slc_cwd shell)) of
                     None \<Rightarrow> unresolvedCwd (slc_cwd shell)
                   | Some res \<Rightarrow> if res \<noteq> [] then res else unresolvedCwd (slc_cwd shell))) \<and>
         getCwd sanitizeCwd isAbsolute pathJoin shell userHome variableResolver root customCwd =
           getCwd sanitizeCwd isAbsolute' pathJoin' shell userHome' variableResolver root' customCwd' \<and>
         (\<forall>r. variableResolver = Some r \<and> r (unresolvedCwd (slc_cwd shell)) = None \<longrightarrow>
            getCwd sanitizeCwd isAbsolute pathJoin shell userHome variableResolver root customCwd =
              sanitizeCwd (unresolvedCwd (slc_cwd shell)))"
  using assms
  by (auto simp: getCwd_def Let_def resolveCwd_def split: option.splits)


theorem getCwd_explicit_witness:
  "getCwd (\<lambda>p. p) (\<lambda>p. False) (\<lambda>a b. a @ ''/'' @ b)
     \<lparr>slc_executable = None, slc_cwd = Some (CwdString ''${workspaceFolder}/x''), slc_env = None,
      slc_strictEnv = False, slc_ignoreConfigurationCwd = False\<rparr>
     (Some ''/home/u'') (Some (\<lambda>s. None)) (Some ''/ws'') (Some ''custom'')
   = ''${workspaceFolder}/x'' \<and>
   getCwd (\<lambda>p. p) (\<lambda>p. False) (\<lambda>a b. a @ ''/'' @ b)
     \<lparr>slc_executable = None, slc_cwd = Some (CwdUri ''/opt''), slc_env = None,
      slc_strictEnv = False, slc_ignoreConfigurationCwd = False\<rparr>
     (Some ''/home/u'') (Some (\<lambda>s. Some (s @ ''/r''))) (Some ''/ws'') (Some ''custom'')
   = ''/opt/r''"
  using getCwd_explicit
    [of "\<lparr>slc_executable = None, slc_cwd = Some (CwdString ''${workspaceFolder}/x''), slc_env = None,
          slc_strictEnv = False, slc_ignoreConfigurationCwd = False\<rparr>"
        "\<lambda>p. p" "\<lambda>p. False" "\<lambda>a b. a @ ''/'' @ b" "Some ''/home/u''" "Some (\<lambda>s. None)"
        "Some ''/ws''" "Some ''custom''"]
    getCwd_explicit
    [of "\<lparr>slc_executable = None, slc_cwd = Some (CwdUri ''/opt''), slc_env = None,
          slc_strictEnv = False, slc_ignoreConfigurationCwd = False\<rparr>"
        "\<lambda>p. p" "\<lambda>p. False" "\<lambda>a b. a @ ''/'' @ b" "Some ''/home/u''" "Some (\<lambda>s. Some (s @ ''/r''))"
        "Some ''/ws''" "Some ''custom''"]
  by simp


text \<open>
  C8 as stated does not hold when the resolution is the empty string (a variable that
  resolves to nothing): \<open>resolved || unresolved\<close> then takes the unresolved literal, not the
  sanitized resolution.
\<close>

theorem getCwd_explicit_counterexample:
  "getCwd (\<lambda>p. p) (\<lambda>p. False) (\<lambda>a b. a @ ''/'' @ b)
     \<lparr>slc_executable = None, slc_cwd = Some (CwdString ''${env:DIR}''), slc_env = None,
      slc_strictEnv = False, slc_ignoreConfigurationCwd = False\<rparr>
     None (Some (\<lambda>s. Some [])) None None
   = ''${env:DIR}'' \<and>
   getCwd (\<lambda>p. p) (\<lambda>p. False) (\<lambda>a b. a @ ''/'' @ b)
     \<lparr>slc_executable = None, slc_cwd = Some (CwdString ''${env:DIR}''), slc_env = None,
      slc_strictEnv = False, slc_ignoreConfigurationCwd = False\<rparr>
     None (Some (\<lambda>s. Some [])) None None
   \<noteq> (\<lambda>p. p) []"
  by (simp add: getCwd_def resolveCwd_def)

subsection \<open>Paths sent to PowerShell\<close>

lemma includes_str_char: "includes_str s [c] \<longleftrightarrow> c \<in> set s"
  by (induction s) auto


text \<open>
  C9, amended. When an executable is given and not empty, the target shell is PowerShell
  (the base name of the executable without \<open>.exe\<close>, or the title, is \<open>pwsh\<close> or
  \<open>powershell\<close>) and the path, as a string with the separators of the backend's system,
  contains a space or a single quote, \<open>preparePathForShell\<close> returns the path between
  \<open>& '\<close> and \<open>'\<close> with every single quote in it doubled, whatever the target operating
  system, the shell type and the backend.
\<close>

theorem preparePathForShell_powershell:
  assumes "truthy executable"
    and "basename (the executable) ''.exe'' = ''pwsh'' \<or> title = ''pwsh'' \<or>
         basename (the executable) ''.exe'' = ''powershell'' \<or> title = ''powershell''"
    and "CHR '' '' \<in> set (originalPath res os isWindowsFrontend) \<or>
         singleQuote \<in> set (originalPath res os isWindowsFrontend)"
  shows "preparePathForShell basename escapeNonWindowsPath res executable title shellType backend
           os isWindowsFrontend =
         Some (''& '' @ [singleQuote] @
               concat (map (\<lambda>c. if c = singleQuote then [singleQuote, singleQuote] else [c])
                         (originalPath res os isWindowsFrontend)) @
               [singleQuote])"
  using assms
  by (simp add: preparePathForShell_def Let_def includes_str_char replaceAll_def)


theorem preparePathForShell_powershell_witness:
  "preparePathForShell basename_posix (\<lambda>p. p) (ResString ''/a b/c'') (Some ''pwsh'') ''t'' None None
     (Some Linux) False = Some (''& '' @ [singleQuote] @ ''/a b/c'' @ [singleQuote]) \<and>
   preparePathForShell basename_posix (\<lambda>p. p) (ResString (''/a'' @ [singleQuote] @ ''s/c''))
     (Some ''C:/bin/powershell.exe'') ''t'' None None (Some Windows) True =
     Some (''& '' @ [singleQuote] @ ''/a'' @ [singleQuote, singleQuote] @ ''s/c'' @ [singleQuote])"
proof -
  have 1: "basename_posix (the (Some ''pwsh'')) ''.exe'' = ''pwsh''" by code_simp
  have 2: "basename_posix (the (Some ''C:/bin/powershell.exe'')) ''.exe'' = ''powershell''"
    by code_simp
  show ?thesis
    using preparePathForShell_powershell
      [of "Some ''pwsh''" basename_posix "''t''" "ResString ''/a b/c''" "Some Linux" False
          "\<lambda>p. p" None None]
      preparePathForShell_powershell
      [of "Some ''C:/bin/powershell.exe''" basename_posix "''t''"
          "ResString (''/a'' @ [singleQuote] @ ''s/c'')" "Some Windows" True "\<lambda>p. p" None None]
      1 2
    by (simp add: originalPath_def singleQuote_def)
qed


text \<open>
  C9 as stated does not hold for the path \<open>/a b/c\<close> with the title \<open>pwsh\<close> and no
  executable: the function returns the path as it is.
\<close>

theorem preparePathForShell_powershell_counterexample:
  "preparePathForShell basename_posix (\<lambda>p. p) (ResString ''/a b/c'') None ''pwsh'' None None
     (Some Linux) False = Some ''/a b/c'' \<and>
   preparePathForShell basename_posix (\<lambda>p. p) (ResString ''/a b/c'') None ''pwsh'' None None
     (Some Linux) False \<noteq> Some (''& '' @ [singleQuote] @ ''/a b/c'' @ [singleQuote])"
  by (simp add: preparePathForShell_def originalPath_def)

end
